theory Spec2Isabelle
  imports Main "HOL-Library.Word"
begin

section \<open>The stream relay of \<^verbatim>\<open>parse_claude_stream.py\<close>\<close>

text \<open>
  The program reads lines from standard input, echoes each to standard output, decodes it
  as JSON, and for the event shapes it recognises calls an external logging script.
  Everything the program does to the outside is kept in one trace of events, in the order
  in which the program does it; the two counters of \<^verbatim>\<open>main\<close> are passed along as a record.
\<close>

subsection \<open>Python values\<close>

text \<open>
  What \<^verbatim>\<open>json.loads\<close> returns: \<^verbatim>\<open>None\<close>, a bool, an int (unbounded), a float
  (kept as its IEEE-754 binary64 bit pattern), a str, a list, or a dict. A dict is the list
  of its items in insertion order; the keys of a dict are distinct. A Python \<^verbatim>\<open>str\<close> is a
  list of characters with code points below 256.
\<close>

datatype json =
    JNull
  | JBool bool
  | JInt int
  | JFloat "64 word"
  | JStr string
  | JArr "json list"
  | JObj "(string \<times> json) list"

text \<open>\<^verbatim>\<open>d.get(key, default)\<close> on a dict.\<close>

definition dict_get :: "(string \<times> json) list \<Rightarrow> string \<Rightarrow> json \<Rightarrow> json" where
  "dict_get d k dflt = (case map_of d k of None \<Rightarrow> dflt | Some v \<Rightarrow> v)"

text \<open>
  The truth value Python gives a decoded JSON value in a condition: \<^verbatim>\<open>None\<close>,
  \<^verbatim>\<open>False\<close>, zero (for a float both \<^verbatim>\<open>0.0\<close> and \<^verbatim>\<open>-0.0\<close>, which differ in the sign bit
  only) and every empty str, list and dict are false; everything else is true.
\<close>

fun truthy :: "json \<Rightarrow> bool" where
  "truthy JNull = False"
| "truthy (JBool b) = b"
| "truthy (JInt i) = (i \<noteq> 0)"
| "truthy (JFloat w) = (take_bit 63 w \<noteq> 0)"
| "truthy (JStr s) = (s \<noteq> [])"
| "truthy (JArr xs) = (xs \<noteq> [])"
| "truthy (JObj kvs) = (kvs \<noteq> [])"

text \<open>\<^verbatim>\<open>str(n)\<close> for an int: decimal digits, with a minus sign for a negative number.\<close>

fun digits_of :: "nat \<Rightarrow> string" where
  "digits_of n =
     (if n < 10 then [''0123456789'' ! n]
      else digits_of (n div 10) @ [''0123456789'' ! (n mod 10)])"

declare digits_of.simps [simp del]

definition str_int :: "int \<Rightarrow> string" where
  "str_int i = (if i < 0 then CHR ''-'' # digits_of (nat (- i)) else digits_of (nat i))"

text \<open>
  \<^verbatim>\<open>s.strip()\<close>: the characters Python counts as whitespace, among those below 256, are
  removed from both ends.
\<close>

definition isspace :: "char \<Rightarrow> bool" where
  "isspace c =
     (let n = (of_char c :: nat)
      in (9 \<le> n \<and> n \<le> 13) \<or> (28 \<le> n \<and> n \<le> 32) \<or> n = 133 \<or> n = 160)"

definition strip :: "string \<Rightarrow> string" where
  "strip s = rev (dropWhile isspace (rev (dropWhile isspace s)))"

subsection \<open>The environment of a run\<close>

text \<open>
  An event of the trace: a write to standard output, a write to the diagnostic stream, or
  a call of \<^verbatim>\<open>subprocess.run\<close> with the command list it is given.
\<close>

datatype io_event = Stdout string | Stderr string | Hook "json list"

text \<open>
  A call of \<^verbatim>\<open>subprocess.run\<close> returns (whatever the exit status of the script), or raises
  an \<^verbatim>\<open>Exception\<close> that prints as the given text: the script is missing or not executable,
  or an argument is not a str. The handler in \<^verbatim>\<open>log_to_snowflake\<close> catches every
  \<^verbatim>\<open>Exception\<close>.
\<close>

datatype run_outcome = Completed | Failed string

text \<open>
  What iterating over \<^verbatim>\<open>sys.stdin\<close> delivers: the next line with its terminator, or a
  \<^verbatim>\<open>KeyboardInterrupt\<close> raised while the program waits for it. The end of the list is the
  end of the stream. An interruption is observed at this point only, where the program
  waits; one that arrives during a call of the script or between two statements is not
  part of the model.
\<close>

datatype stdin_event = Line string | Interrupt

text \<open>The exceptions that travel through \<^verbatim>\<open>main\<close>.\<close>

datatype pyexc = AttributeError | KeyboardInterrupt

text \<open>
  What the program takes from outside itself: the two module constants, the working
  directory, the \<^verbatim>\<open>json\<close> module (\<^verbatim>\<open>json_loads\<close> gives \<open>None\<close> where \<^verbatim>\<open>json.loads\<close> raises
  \<^verbatim>\<open>JSONDecodeError\<close>), the outcome of each call of \<^verbatim>\<open>subprocess.run\<close> (it may depend on
  everything that happened before), and the milliseconds the clock shows at the end.
\<close>

record env =
  ACTIVITY_LOGGER :: string
  SESSION_ID :: string
  getcwd :: string
  json_loads :: "string \<Rightarrow> json option"
  json_dumps :: "json \<Rightarrow> string"
  subprocess_run :: "io_event list \<Rightarrow> json list \<Rightarrow> run_outcome"
  elapsed_ms :: int

text \<open>The local variables of \<^verbatim>\<open>main\<close> that the loop updates.\<close>

record counters =
  activity_count :: int
  total_tokens :: int

definition newline :: string where
  "newline = [CHR 0x0A]"

subsection \<open>The functions of the module\<close>

text \<open>
  \<^verbatim>\<open>log_to_snowflake(activity_type, *args)\<close>: the command is the script, the activity type
  and the arguments; an exception of the call is caught and printed to the diagnostic
  stream. The function returns in both cases.
\<close>

definition hook_cmd :: "env \<Rightarrow> string \<Rightarrow> json list \<Rightarrow> json list" where
  "hook_cmd e activity_type args = [JStr (ACTIVITY_LOGGER e), JStr activity_type] @ args"

definition log_to_snowflake :: "env \<Rightarrow> io_event list \<Rightarrow> string \<Rightarrow> json list \<Rightarrow> io_event list" where
  "log_to_snowflake e tr activity_type args =
     (let cmd = hook_cmd e activity_type args
      in case subprocess_run e tr cmd of
           Completed \<Rightarrow> tr @ [Hook cmd]
         | Failed msg \<Rightarrow>
             tr @ [Hook cmd, Stderr (''Error logging to Snowflake: '' @ msg @ newline)])"

text \<open>\<^verbatim>\<open>parse_tool_use(data)\<close>, for a dict \<^verbatim>\<open>data\<close>.\<close>

definition parse_tool_use :: "env \<Rightarrow> (string \<times> json) list \<Rightarrow> json \<times> string \<times> int \<times> int" where
  "parse_tool_use e data =
     (let tool_name = dict_get data ''tool'' (JStr ''unknown'');
          parameters = dict_get data ''parameters'' (JObj []);
          params_json = (if truthy parameters then json_dumps e parameters else ''{}'');
          duration_ms = 100;
          tokens_used = int (length (json_dumps e (JObj data))) div 4
      in (tool_name, params_json, duration_ms, tokens_used))"

text \<open>
  The body of the \<^verbatim>\<open>for\<close> loop for one line. The line is printed first. A line that does
  not decode is passed over. A decoded value that is not a dict has no \<^verbatim>\<open>get\<close>: the
  lookup raises \<^verbatim>\<open>AttributeError\<close>, which the inner handler does not catch. The result is
  the counters, the trace, and the exception that leaves the body, if any.
\<close>

definition main_body ::
  "env \<Rightarrow> counters \<times> io_event list \<Rightarrow> string \<Rightarrow> counters \<times> io_event list \<times> pyexc option" where
  "main_body e st line =
     (let (c, tr) = st;
          tr1 = tr @ [Stdout line]
      in case json_loads e (strip line) of
           None \<Rightarrow> (c, tr1, None)
         | Some (JObj data) \<Rightarrow>
             if dict_get data ''type'' JNull = JStr ''tool_use'' then
               (let c1 = c\<lparr>activity_count := activity_count c + 1\<rparr>;
                    (tool_name, params_json, duration_ms, tokens_used) = parse_tool_use e data;
                    c2 = c1\<lparr>total_tokens := total_tokens c1 + tokens_used\<rparr>
                in (c2,
                    log_to_snowflake e tr1 ''tool_call''
                      [tool_name, JStr params_json, JStr ''success'',
                       JStr (str_int duration_ms), JStr (str_int tokens_used)],
                    None))
             else if dict_get data ''type'' JNull = JStr ''error'' then
               (let error_msg = dict_get data ''message'' (JStr ''Unknown error'')
                in (c,
                    log_to_snowflake e tr1 ''tool_call''
                      [JStr ''error'', JStr (json_dumps e (JObj [(''error'', error_msg)])),
                       JStr ''error'', JStr ''0'', JStr ''0''],
                    None))
             else (c, tr1, None)
         | Some _ \<Rightarrow> (c, tr1, Some AttributeError))"

text \<open>
  The \<^verbatim>\<open>for\<close> loop: it ends when the stream does, or with the first exception.
\<close>

fun main_loop ::
  "env \<Rightarrow> counters \<times> io_event list \<Rightarrow> stdin_event list \<Rightarrow> counters \<times> io_event list \<times> pyexc option" where
  "main_loop e st [] = (fst st, snd st, None)"
| "main_loop e st (Interrupt # rest) = (fst st, snd st, Some KeyboardInterrupt)"
| "main_loop e st (Line line # rest) =
     (case main_body e st line of
        (c, tr, None) \<Rightarrow> main_loop e (c, tr) rest
      | (c, tr, Some x) \<Rightarrow> (c, tr, Some x))"

text \<open>
  The \<^verbatim>\<open>finally\<close> block of \<^verbatim>\<open>main\<close>: the session end is logged and the summary printed.
\<close>

definition shutdown :: "env \<Rightarrow> counters \<Rightarrow> io_event list \<Rightarrow> io_event list" where
  "shutdown e c tr =
     log_to_snowflake e tr ''session_end''
       [JStr (str_int (activity_count c)), JStr (str_int (total_tokens c)),
        JStr (str_int (elapsed_ms e))]
     @ [Stderr (''Session ended: '' @ str_int (activity_count c) @ '' activities logged'' @ newline)]"

text \<open>
  The start of \<^verbatim>\<open>main\<close>, before the \<^verbatim>\<open>try\<close>: the banner on the diagnostic stream, then
  the session start is logged with the working directory. The result is the trace with
  which the loop starts.
\<close>

definition startup :: "env \<Rightarrow> io_event list" where
  "startup e =
     log_to_snowflake e
       [Stderr (''Starting Claude stream parser (session: '' @ SESSION_ID e @ '')'' @ newline)]
       ''session_start'' [JStr (getcwd e)]"

text \<open>
  \<^verbatim>\<open>main()\<close>: the start, the loop with both counters at zero, the handler of
  \<^verbatim>\<open>KeyboardInterrupt\<close>, the \<^verbatim>\<open>finally\<close> block. An exception that is not a
  \<^verbatim>\<open>KeyboardInterrupt\<close> leaves \<^verbatim>\<open>main\<close> after the \<^verbatim>\<open>finally\<close> block has run. The result
  is the trace of the run, the counters at the end, and the exception that leaves
  \<^verbatim>\<open>main\<close>, if any.
\<close>

definition main :: "env \<Rightarrow> stdin_event list \<Rightarrow> io_event list \<times> counters \<times> pyexc option" where
  "main e inp =
     (let (c, tr, r) = main_loop e (\<lparr>activity_count = 0, total_tokens = 0\<rparr>, startup e) inp
      in case r of
           Some KeyboardInterrupt \<Rightarrow>
             (shutdown e c (tr @ [Stderr (newline @ ''Stream parsing interrupted'' @ newline)]),
              c, None)
         | _ \<Rightarrow> (shutdown e c tr, c, r))"

subsection \<open>Reading a trace\<close>

fun stdout_of :: "io_event list \<Rightarrow> string list" where
  "stdout_of [] = []"
| "stdout_of (Stdout s # tr) = s # stdout_of tr"
| "stdout_of (_ # tr) = stdout_of tr"

fun hooks_of :: "io_event list \<Rightarrow> json list list" where
  "hooks_of [] = []"
| "hooks_of (Hook cmd # tr) = cmd # hooks_of tr"
| "hooks_of (_ # tr) = hooks_of tr"

text \<open>The lines of an input, in order, without the interruptions.\<close>

fun lines_of :: "stdin_event list \<Rightarrow> string list" where
  "lines_of [] = []"
| "lines_of (Line l # inp) = l # lines_of inp"
| "lines_of (Interrupt # inp) = lines_of inp"

subsection \<open>A sample environment\<close>

text \<open>
  A home directory, a session id, and the \<^verbatim>\<open>json\<close> module on the texts and values the
  examples below use: \<open>sample_loads\<close> decodes the five texts listed and rejects the others,
  \<open>sample_dumps\<close> serialises the values the examples reach, with Python's separators.
  The script runs whenever it is called.
\<close>

definition sample_tool_event :: "(string \<times> json) list" where
  "sample_tool_event =
     [(''type'', JStr ''tool_use''), (''tool'', JStr ''search''),
      (''parameters'', JObj [(''q'', JStr ''x'')])]"

definition sample_loads :: "string \<Rightarrow> json option" where
  \<open>sample_loads s =
     (if s = ''{"type":"tool_use","tool":"search","parameters":{"q":"x"}}''
        then Some (JObj sample_tool_event)
      else if s = ''{"type":"tool_use","parameters":0}''
        then Some (JObj [(''type'', JStr ''tool_use''), (''parameters'', JInt 0)])
      else if s = ''{"type":"error","message":"boom"}''
        then Some (JObj [(''type'', JStr ''error''), (''message'', JStr ''boom'')])
      else if s = ''{"type":"text"}''
        then Some (JObj [(''type'', JStr ''text'')])
      else if s = ''[1]''
        then Some (JArr [JInt 1])
      else None)\<close>

definition sample_dumps :: "json \<Rightarrow> string" where
  \<open>sample_dumps v =
     (if v = JObj sample_tool_event
        then ''{"type": "tool_use", "tool": "search", "parameters": {"q": "x"}}''
      else if v = JObj [(''q'', JStr ''x'')]
        then ''{"q": "x"}''
      else if v = JObj [(''type'', JStr ''tool_use''), (''parameters'', JInt 0)]
        then ''{"type": "tool_use", "parameters": 0}''
      else if v = JObj [(''error'', JStr ''boom'')]
        then ''{"error": "boom"}''
      else ''null'')\<close>

definition sample_env :: env where
  "sample_env =
     \<lparr>ACTIVITY_LOGGER = ''/home/u/snowflake-activity-schema/activity_schema/log_claude_activity.sh'',
      SESSION_ID = ''session-1'',
      getcwd = ''/work'',
      json_loads = sample_loads,
      json_dumps = sample_dumps,
      subprocess_run = (\<lambda>tr cmd. Completed),
      elapsed_ms = 250\<rparr>"

definition sample_tool_line :: string where
  \<open>sample_tool_line = ''{"type":"tool_use","tool":"search","parameters":{"q":"x"}}'' @ newline\<close>

definition sample_error_line :: string where
  \<open>sample_error_line = ''{"type":"error","message":"boom"}'' @ newline\<close>

definition sample_falsy_line :: string where
  \<open>sample_falsy_line = ''{"type":"tool_use","parameters":0}'' @ newline\<close>

subsection \<open>Calls made for lines\<close>

text \<open>
  Every call of the script in a stretch of the trace is a \<^verbatim>\<open>tool_call\<close>: the command
  starts with the script and that kind. The calls for the session have other kinds.
\<close>

definition tool_calls_only :: "env \<Rightarrow> io_event list \<Rightarrow> bool" where
  "tool_calls_only e tr =
     list_all (\<lambda>cmd. take 2 cmd = [JStr (ACTIVITY_LOGGER e), JStr ''tool_call'']) (hooks_of tr)"

subsection \<open>The trace without the diagnostics\<close>

text \<open>
  What a run does apart from writing to the diagnostic stream: the lines it echoes and the
  calls of the script, in their order.
\<close>

fun is_diagnostic :: "io_event \<Rightarrow> bool" where
  "is_diagnostic (Stderr s) = True"
| "is_diagnostic _ = False"

definition effects :: "io_event list \<Rightarrow> io_event list" where
  "effects tr = filter (\<lambda>ev. \<not> is_diagnostic ev) tr"

subsection \<open>More samples\<close>

text \<open>
  The sample environment with the script missing: every call raises
  \<^verbatim>\<open>FileNotFoundError\<close>. And a line that is valid JSON but not an object.
  a line that is not JSON, and an event of a kind that is not logged.
\<close>

definition failing_env :: env where
  "failing_env =
     sample_env\<lparr>subprocess_run := (\<lambda>tr cmd. Failed ''[Errno 2] No such file or directory'')\<rparr>"

definition sample_array_line :: string where
  "sample_array_line = ''[1]'' @ newline"

definition sample_text_line :: string where
  "sample_text_line = ''not json at all'' @ newline"

definition sample_other_line :: string where
  \<open>sample_other_line = ''{"type":"text"}'' @ newline\<close>

section \<open>Properties\<close>

subsection \<open>Traces and the logging call\<close>

lemmas sample_defs = sample_env_def sample_loads_def sample_dumps_def sample_tool_event_def
  sample_tool_line_def sample_error_line_def sample_falsy_line_def sample_array_line_def
  failing_env_def sample_text_line_def sample_other_line_def

lemmas run_defs = main_def startup_def shutdown_def main_body_def parse_tool_use_def
  log_to_snowflake_def hook_cmd_def dict_get_def strip_def isspace_def newline_def
  str_int_def digits_of.simps

lemma stdout_of_append: "stdout_of (xs @ ys) = stdout_of xs @ stdout_of ys"
  by (induction xs rule: stdout_of.induct) simp_all

lemma hooks_of_append: "hooks_of (xs @ ys) = hooks_of xs @ hooks_of ys"
  by (induction xs rule: hooks_of.induct) simp_all

lemma log_to_snowflake_ext:
  "\<exists>ext. log_to_snowflake e tr k a = tr @ Hook (hook_cmd e k a) # ext
         \<and> hooks_of ext = [] \<and> stdout_of ext = []"
  by (cases "subprocess_run e tr (hook_cmd e k a)") (simp_all add: log_to_snowflake_def)

lemma str_int_100: "str_int 100 = ''100''"
  by (simp add: str_int_def digits_of.simps)



lemma main_body_tool_use:
  assumes "json_loads e (strip line) = Some (JObj data)"
    and "dict_get data ''type'' JNull = JStr ''tool_use''"
  shows "main_body e (c, tr) line =
       (c\<lparr>activity_count := activity_count c + 1,
           total_tokens := total_tokens c + int (length (json_dumps e (JObj data))) div 4\<rparr>,
        log_to_snowflake e (tr @ [Stdout line]) ''tool_call''
          [dict_get data ''tool'' (JStr ''unknown''),
           JStr (if truthy (dict_get data ''parameters'' (JObj []))
                 then json_dumps e (dict_get data ''parameters'' (JObj [])) else ''{}''),
           JStr ''success'', JStr ''100'',
           JStr (str_int (int (length (json_dumps e (JObj data))) div 4))],
        None)"
  using assms by (simp add: main_body_def parse_tool_use_def Let_def str_int_100)

subsection \<open>The default of the parameters\<close>

text \<open>
  C10. In a \<^verbatim>\<open>tool_use\<close> event whose \<^verbatim>\<open>parameters\<close> are absent or have a value that
  Python counts as false, the parameters argument of the call is the text \<^verbatim>\<open>{}\<close>. The
  values that count as false are \<^verbatim>\<open>null\<close>, the empty object, the empty string, \<^verbatim>\<open>0\<close>
  and \<^verbatim>\<open>false\<close>, and also the empty array and the floats \<^verbatim>\<open>0.0\<close> and \<^verbatim>\<open>-0.0\<close>.
\<close>

theorem falsy_parameters:
  assumes "json_loads e (strip line) = Some (JObj data)"
    and "dict_get data ''type'' JNull = JStr ''tool_use''"
    and "map_of data ''parameters'' = None
         \<or> (\<exists>p. map_of data ''parameters'' = Some p \<and> \<not> truthy p)"
  shows "(\<exists>c' ext.
     main_body e (c, tr) line =
       (c',
        tr @ Stdout line
           # Hook (hook_cmd e ''tool_call''
                [dict_get data ''tool'' (JStr ''unknown''), JStr ''{}'', JStr ''success'',
                 JStr ''100'',
                 JStr (str_int (int (length (json_dumps e (JObj data))) div 4))])
           # ext,
        None)
     \<and> hooks_of ext = [])
   \<and> \<not> truthy JNull \<and> \<not> truthy (JObj []) \<and> \<not> truthy (JStr '''') \<and> \<not> truthy (JInt 0)
   \<and> \<not> truthy (JBool False) \<and> \<not> truthy (JArr []) \<and> \<not> truthy (JFloat 0)
   \<and> \<not> truthy (JFloat 0x8000000000000000)"
proof -
  let ?args = "[dict_get data ''tool'' (JStr ''unknown''), JStr ''{}'', JStr ''success'',
                 JStr ''100'',
                 JStr (str_int (int (length (json_dumps e (JObj data))) div 4))]"
  have f: "\<not> truthy (dict_get data ''parameters'' (JObj []))"
    using assms(3) by (auto simp: dict_get_def)
  obtain ext where ext: "log_to_snowflake e (tr @ [Stdout line]) ''tool_call'' ?args
        = (tr @ [Stdout line]) @ Hook (hook_cmd e ''tool_call'' ?args) # ext"
      "hooks_of ext = []"
    using log_to_snowflake_ext by blast
  with main_body_tool_use [OF assms(1,2), of c tr] f
  have "\<exists>c' ext.
     main_body e (c, tr) line = (c', tr @ Stdout line # Hook (hook_cmd e ''tool_call'' ?args) # ext, None)
     \<and> hooks_of ext = []"
    by simp
  then show ?thesis by simp
qed

theorem falsy_parameters_witness:
  \<open>json_loads sample_env (strip sample_falsy_line)
      = Some (JObj [(''type'', JStr ''tool_use''), (''parameters'', JInt 0)])
   \<and> dict_get [(''type'', JStr ''tool_use''), (''parameters'', JInt 0)] ''type'' JNull
      = JStr ''tool_use''
   \<and> map_of [(''type'', JStr ''tool_use''), (''parameters'', JInt 0)] ''parameters''
      = Some (JInt 0)
   \<and> \<not> truthy (JInt 0)
   \<and> (\<exists>c' ext.
        main_body sample_env (\<lparr>activity_count = 0, total_tokens = 0\<rparr>, []) sample_falsy_line =
          (c',
           Stdout sample_falsy_line
             # Hook [JStr (ACTIVITY_LOGGER sample_env), JStr ''tool_call'', JStr ''unknown'',
                     JStr ''{}'', JStr ''success'', JStr ''100'', JStr ''9'']
             # ext,
           None)
        \<and> hooks_of ext = [])\<close>
proof -
  let ?d = "[(''type'', JStr ''tool_use''), (''parameters'', JInt 0)]"
  have h1: "json_loads sample_env (strip sample_falsy_line) = Some (JObj ?d)"
    by (simp add: sample_env_def sample_falsy_line_def strip_def isspace_def newline_def
        sample_loads_def)
  have h2: "dict_get ?d ''type'' JNull = JStr ''tool_use''"
    by (simp add: dict_get_def)
  have h3: "map_of ?d ''parameters'' = Some (JInt 0)"
    by simp
  have h3': "map_of ?d ''parameters'' = None
         \<or> (\<exists>p. map_of ?d ''parameters'' = Some p \<and> \<not> truthy p)"
    by simp
  have g: "dict_get ?d ''tool'' (JStr ''unknown'') = JStr ''unknown''"
    by (simp add: dict_get_def)
  have l: "int (length (json_dumps sample_env (JObj ?d))) div 4 = 9"
    by (simp add: sample_env_def sample_dumps_def sample_tool_event_def)
  have s: "str_int 9 = ''9''"
    by (simp add: str_int_def digits_of.simps)
  show ?thesis
    using falsy_parameters [OF h1 h2 h3', of "\<lparr>activity_count = 0, total_tokens = 0\<rparr>" "[]"]
    by (simp add: h1 h2 g l s hook_cmd_def)
qed

subsection \<open>The loop\<close>

lemma tool_calls_only_simps [simp]:
  "tool_calls_only e []"
  "tool_calls_only e (Stdout s # tr) = tool_calls_only e tr"
  "tool_calls_only e (Stderr s # tr) = tool_calls_only e tr"
  "tool_calls_only e (Hook cmd # tr) =
     (take 2 cmd = [JStr (ACTIVITY_LOGGER e), JStr ''tool_call''] \<and> tool_calls_only e tr)"
  "tool_calls_only e (xs @ ys) = (tool_calls_only e xs \<and> tool_calls_only e ys)"
  by (simp_all add: tool_calls_only_def hooks_of_append)

lemma hooks_of_Nil_tool_calls_only: "hooks_of ext = [] \<Longrightarrow> tool_calls_only e ext"
  by (simp add: tool_calls_only_def)

lemma main_body_error:
  assumes "json_loads e (strip line) = Some (JObj data)"
    and "dict_get data ''type'' JNull = JStr ''error''"
  shows "main_body e (c, tr) line =
       (c,
        log_to_snowflake e (tr @ [Stdout line]) ''tool_call''
          [JStr ''error'',
           JStr (json_dumps e
             (JObj [(''error'', dict_get data ''message'' (JStr ''Unknown error''))])),
           JStr ''error'', JStr ''0'', JStr ''0''],
        None)"
  using assms by (simp add: main_body_def Let_def)

lemma main_body_cases:
  "(\<exists>c' a. main_body e (c, tr) line
       = (c', log_to_snowflake e (tr @ [Stdout line]) ''tool_call'' a, None))
   \<or> (\<exists>r. main_body e (c, tr) line = (c, tr @ [Stdout line], r))"
proof (cases "json_loads e (strip line)")
  case None
  then show ?thesis by (simp add: main_body_def)
next
  case (Some v)
  show ?thesis
  proof (cases v)
    case (JObj data)
    consider "dict_get data ''type'' JNull = JStr ''tool_use''"
      | "dict_get data ''type'' JNull = JStr ''error''"
      | "dict_get data ''type'' JNull \<noteq> JStr ''tool_use''"
        "dict_get data ''type'' JNull \<noteq> JStr ''error''"
      by blast
    then show ?thesis
    proof cases
      case 1
      with Some JObj main_body_tool_use [of e line data c tr] show ?thesis by blast
    next
      case 2
      with Some JObj main_body_error [of e line data c tr] show ?thesis by blast
    next
      case 3
      with Some JObj show ?thesis by (simp add: main_body_def)
    qed
  qed (use Some in \<open>simp_all add: main_body_def\<close>)
qed

lemma main_body_ext:
  "\<exists>c' ext r. main_body e (c, tr) line = (c', tr @ Stdout line # ext, r)
      \<and> stdout_of ext = [] \<and> tool_calls_only e ext"
proof -
  from main_body_cases [of e c tr line] show ?thesis
  proof
    assume "\<exists>c' a. main_body e (c, tr) line
       = (c', log_to_snowflake e (tr @ [Stdout line]) ''tool_call'' a, None)"
    then obtain c' a where m: "main_body e (c, tr) line
       = (c', log_to_snowflake e (tr @ [Stdout line]) ''tool_call'' a, None)"
      by blast
    obtain ext where "log_to_snowflake e (tr @ [Stdout line]) ''tool_call'' a
        = (tr @ [Stdout line]) @ Hook (hook_cmd e ''tool_call'' a) # ext"
        "hooks_of ext = []" "stdout_of ext = []"
      using log_to_snowflake_ext by blast
    with m show ?thesis
      by (simp add: hook_cmd_def hooks_of_Nil_tool_calls_only)
  next
    assume "\<exists>r. main_body e (c, tr) line = (c, tr @ [Stdout line], r)"
    then show ?thesis by auto
  qed
qed

lemma main_loop_ext:
  "\<exists>c' ext r. main_loop e (c, tr) inp = (c', tr @ ext, r) \<and> tool_calls_only e ext
      \<and> (r = None \<longrightarrow> stdout_of ext = lines_of inp \<and> Interrupt \<notin> set inp)"
proof (induction inp arbitrary: c tr)
  case Nil
  then show ?case by simp
next
  case (Cons ev inp)
  show ?case
  proof (cases ev)
    case Interrupt
    then show ?thesis by simp
  next
    case (Line l)
    obtain c1 ext1 r1 where b: "main_body e (c, tr) l = (c1, tr @ Stdout l # ext1, r1)"
        "stdout_of ext1 = []" "tool_calls_only e ext1"
      using main_body_ext by blast
    show ?thesis
    proof (cases r1)
      case (Some x)
      with b Line show ?thesis by simp
    next
      case None
      obtain c2 ext2 r2 where l: "main_loop e (c1, tr @ Stdout l # ext1) inp
            = (c2, (tr @ Stdout l # ext1) @ ext2, r2)" "tool_calls_only e ext2"
          "r2 = None \<longrightarrow> stdout_of ext2 = lines_of inp \<and> Interrupt \<notin> set inp"
        using Cons.IH by blast
      have "main_loop e (c, tr) (ev # inp) = (c2, tr @ (Stdout l # ext1 @ ext2), r2)"
        using b None Line l by simp
      moreover have "tool_calls_only e (Stdout l # ext1 @ ext2)"
        using b l by simp
      moreover have "r2 = None \<longrightarrow> stdout_of (Stdout l # ext1 @ ext2) = lines_of (ev # inp)
          \<and> Interrupt \<notin> set (ev # inp)"
        using b l Line by (simp add: stdout_of_append)
      ultimately show ?thesis by blast
    qed
  qed
qed

lemma main_loop_append:
  "main_loop e st pre = (c, tr, None) \<Longrightarrow> main_loop e st (pre @ rest) = main_loop e (c, tr) rest"
proof (induction pre arbitrary: st)
  case Nil
  then show ?case by (cases st) simp
next
  case (Cons ev pre)
  then show ?case
    by (cases ev) (auto split: prod.splits option.splits)
qed

lemma main_loop_interrupt:
  "main_loop e st (pre @ Interrupt # rest) = main_loop e st (pre @ [Interrupt])"
proof (induction pre arbitrary: st)
  case Nil
  then show ?case by simp
next
  case (Cons ev pre)
  then show ?case
    by (cases ev) (auto split: prod.splits option.splits)
qed

lemma main_body_exc:
  "main_body e (c, tr) line = (c', tr', Some x) \<Longrightarrow> x = AttributeError"
  by (auto simp: main_body_def Let_def split: option.splits json.splits if_splits prod.splits)

lemma main_loop_interrupted:
  "main_loop e (c, tr) inp = (c', tr', Some KeyboardInterrupt) \<Longrightarrow> Interrupt \<in> set inp"
proof (induction inp arbitrary: c tr)
  case Nil
  then show ?case by simp
next
  case (Cons ev inp)
  show ?case
  proof (cases ev)
    case Interrupt
    then show ?thesis by simp
  next
    case (Line l)
    obtain c1 tr1 r1 where b: "main_body e (c, tr) l = (c1, tr1, r1)"
      by (cases "main_body e (c, tr) l") auto
    show ?thesis
    proof (cases r1)
      case None
      with b Line Cons show ?thesis by simp
    next
      case (Some x)
      with b have "x = AttributeError" using main_body_exc by blast
      with b Some Line Cons.prems show ?thesis by simp
    qed
  qed
qed

lemma shutdown_ext:
  "\<exists>fail. shutdown e c tr =
      tr @ Hook (hook_cmd e ''session_end''
             [JStr (str_int (activity_count c)), JStr (str_int (total_tokens c)),
              JStr (str_int (elapsed_ms e))])
         # fail
         @ [Stderr (''Session ended: '' @ str_int (activity_count c) @ '' activities logged''
              @ newline)]
    \<and> hooks_of fail = [] \<and> stdout_of fail = []"
proof -
  obtain ext where "log_to_snowflake e tr ''session_end''
       [JStr (str_int (activity_count c)), JStr (str_int (total_tokens c)),
        JStr (str_int (elapsed_ms e))]
     = tr @ Hook (hook_cmd e ''session_end''
             [JStr (str_int (activity_count c)), JStr (str_int (total_tokens c)),
              JStr (str_int (elapsed_ms e))]) # ext"
    "hooks_of ext = []" "stdout_of ext = []"
    using log_to_snowflake_ext by blast
  then show ?thesis by (simp add: shutdown_def)
qed

lemma startup_ext:
  "\<exists>fail. startup e =
      Stderr (''Starting Claude stream parser (session: '' @ SESSION_ID e @ '')'' @ newline)
        # Hook (hook_cmd e ''session_start'' [JStr (getcwd e)]) # fail
    \<and> hooks_of fail = [] \<and> stdout_of fail = []"
proof -
  let ?b = "Stderr (''Starting Claude stream parser (session: '' @ SESSION_ID e @ '')'' @ newline)"
  obtain ext where "log_to_snowflake e [?b] ''session_start'' [JStr (getcwd e)]
      = [?b] @ Hook (hook_cmd e ''session_start'' [JStr (getcwd e)]) # ext"
    "hooks_of ext = []" "stdout_of ext = []"
    using log_to_snowflake_ext by blast
  then show ?thesis by (simp add: startup_def)
qed

lemma main_exhausted:
  assumes "main_loop e (\<lparr>activity_count = 0, total_tokens = 0\<rparr>, startup e) inp = (c, tr, None)"
  shows "main e inp = (shutdown e c tr, c, None)"
  using assms by (simp add: main_def)

lemma main_attribute_error:
  assumes "main_loop e (\<lparr>activity_count = 0, total_tokens = 0\<rparr>, startup e) inp
      = (c, tr, Some AttributeError)"
  shows "main e inp = (shutdown e c tr, c, Some AttributeError)"
  using assms by (simp add: main_def)

lemma main_keyboard_interrupt:
  assumes "main_loop e (\<lparr>activity_count = 0, total_tokens = 0\<rparr>, startup e) inp
      = (c, tr, Some KeyboardInterrupt)"
  shows "main e inp =
     (shutdown e c (tr @ [Stderr (newline @ ''Stream parsing interrupted'' @ newline)]), c, None)"
  using assms by (simp add: main_def)

lemma main_reads_all:
  assumes "Interrupt \<notin> set pre" and "snd (snd (main e pre)) = None"
  shows "\<exists>c ext. main_loop e (\<lparr>activity_count = 0, total_tokens = 0\<rparr>, startup e) pre
            = (c, startup e @ ext, None)
          \<and> stdout_of ext = lines_of pre \<and> tool_calls_only e ext
          \<and> fst (snd (main e pre)) = c"
proof -
  obtain c ext r where l: "main_loop e (\<lparr>activity_count = 0, total_tokens = 0\<rparr>, startup e) pre
            = (c, startup e @ ext, r)" "tool_calls_only e ext"
      "r = None \<longrightarrow> stdout_of ext = lines_of pre \<and> Interrupt \<notin> set pre"
    using main_loop_ext by blast
  have "r = None"
  proof (cases r)
    case None
    then show ?thesis .
  next
    case (Some x)
    show ?thesis
    proof (cases x)
      case AttributeError
      with l Some assms(2) main_attribute_error [of e pre c "startup e @ ext"]
      show ?thesis by simp
    next
      case KeyboardInterrupt
      with l Some assms(1) main_loop_interrupted show ?thesis by blast
    qed
  qed
  with l main_exhausted [of e pre c "startup e @ ext"] show ?thesis by simp
qed

lemma main_trace:
  "\<exists>c ext r. main_loop e (\<lparr>activity_count = 0, total_tokens = 0\<rparr>, startup e) inp
        = (c, startup e @ ext, r)
     \<and> tool_calls_only e ext
     \<and> (r = None \<longrightarrow> stdout_of ext = lines_of inp)
     \<and> main e inp =
         (shutdown e c (startup e @ ext @
            (if r = Some KeyboardInterrupt
             then [Stderr (newline @ ''Stream parsing interrupted'' @ newline)] else [])),
          c, if r = Some KeyboardInterrupt then None else r)"
proof -
  obtain c ext r where l: "main_loop e (\<lparr>activity_count = 0, total_tokens = 0\<rparr>, startup e) inp
            = (c, startup e @ ext, r)" "tool_calls_only e ext"
      "r = None \<longrightarrow> stdout_of ext = lines_of inp \<and> Interrupt \<notin> set inp"
    using main_loop_ext by blast
  have "main e inp =
         (shutdown e c (startup e @ ext @
            (if r = Some KeyboardInterrupt
             then [Stderr (newline @ ''Stream parsing interrupted'' @ newline)] else [])),
          c, if r = Some KeyboardInterrupt then None else r)"
  proof (cases r)
    case None
    with l main_exhausted [of e inp c "startup e @ ext"] show ?thesis by simp
  next
    case (Some x)
    with l main_attribute_error [of e inp c "startup e @ ext"]
      main_keyboard_interrupt [of e inp c "startup e @ ext"]
    show ?thesis by (cases x) simp_all
  qed
  with l show ?thesis by blast
qed

subsection \<open>The start and the end of the session\<close>

lemma filter_tool_calls_only:
  assumes "tool_calls_only e tr" and "k \<noteq> ''tool_call''"
  shows "filter (\<lambda>cmd. take 2 cmd = [JStr (ACTIVITY_LOGGER e), JStr k]) (hooks_of tr) = []"
  using assms by (auto simp: tool_calls_only_def filter_empty_conv list_all_iff)

text \<open>
  C5. In every run the trace starts with the banner and the call of the script with the
  kind \<^verbatim>\<open>session_start\<close> and the working directory; nothing is read or echoed before it.
  The trace ends with the call of the script with the kind \<^verbatim>\<open>session_end\<close> and the
  activity count, the token total and the elapsed milliseconds, followed only by
  diagnostics, the last of which is the summary. Every call of the script between the two
  has the kind \<^verbatim>\<open>tool_call\<close>. So among all the calls of a run exactly one has the kind
  \<^verbatim>\<open>session_start\<close> and exactly one the kind \<^verbatim>\<open>session_end\<close>; the end follows all the
  lines, also when the loop was left by an interruption or an exception.
\<close>

theorem session_hooks:
  "\<exists>mid fail.
     fst (main e inp) =
       Stderr (''Starting Claude stream parser (session: '' @ SESSION_ID e @ '')'' @ newline)
       # Hook [JStr (ACTIVITY_LOGGER e), JStr ''session_start'', JStr (getcwd e)]
       # mid
       @ Hook [JStr (ACTIVITY_LOGGER e), JStr ''session_end'',
            JStr (str_int (activity_count (fst (snd (main e inp))))),
            JStr (str_int (total_tokens (fst (snd (main e inp))))),
            JStr (str_int (elapsed_ms e))]
       # fail
       @ [Stderr (''Session ended: '' @ str_int (activity_count (fst (snd (main e inp))))
            @ '' activities logged'' @ newline)]
     \<and> tool_calls_only e mid
     \<and> hooks_of fail = [] \<and> stdout_of fail = []
     \<and> filter (\<lambda>cmd. take 2 cmd = [JStr (ACTIVITY_LOGGER e), JStr ''session_start''])
          (hooks_of (fst (main e inp)))
        = [[JStr (ACTIVITY_LOGGER e), JStr ''session_start'', JStr (getcwd e)]]
     \<and> filter (\<lambda>cmd. take 2 cmd = [JStr (ACTIVITY_LOGGER e), JStr ''session_end''])
          (hooks_of (fst (main e inp)))
        = [[JStr (ACTIVITY_LOGGER e), JStr ''session_end'',
            JStr (str_int (activity_count (fst (snd (main e inp))))),
            JStr (str_int (total_tokens (fst (snd (main e inp))))),
            JStr (str_int (elapsed_ms e))]]"
proof -
  let ?b = "Stderr (''Starting Claude stream parser (session: '' @ SESSION_ID e @ '')'' @ newline)"
  let ?start = "[JStr (ACTIVITY_LOGGER e), JStr ''session_start'', JStr (getcwd e)]"
  let ?end = "[JStr (ACTIVITY_LOGGER e), JStr ''session_end'',
            JStr (str_int (activity_count (fst (snd (main e inp))))),
            JStr (str_int (total_tokens (fst (snd (main e inp))))),
            JStr (str_int (elapsed_ms e))]"
  let ?sum = "Stderr (''Session ended: '' @ str_int (activity_count (fst (snd (main e inp))))
            @ '' activities logged'' @ newline)"
  obtain c ext r where m: "tool_calls_only e ext"
     "main e inp =
         (shutdown e c (startup e @ ext @
            (if r = Some KeyboardInterrupt
             then [Stderr (newline @ ''Stream parsing interrupted'' @ newline)] else [])),
          c, if r = Some KeyboardInterrupt then None else r)"
    using main_trace by blast
  let ?n = "if r = Some KeyboardInterrupt
             then [Stderr (newline @ ''Stream parsing interrupted'' @ newline)] else []"
  obtain f0 where s: "startup e = ?b # Hook (hook_cmd e ''session_start'' [JStr (getcwd e)]) # f0"
      "hooks_of f0 = []" "stdout_of f0 = []"
    using startup_ext by blast
  obtain fail where f: "shutdown e c (startup e @ ext @ ?n) =
      (startup e @ ext @ ?n) @ Hook (hook_cmd e ''session_end''
             [JStr (str_int (activity_count c)), JStr (str_int (total_tokens c)),
              JStr (str_int (elapsed_ms e))])
         # fail
         @ [Stderr (''Session ended: '' @ str_int (activity_count c) @ '' activities logged''
              @ newline)]"
      "hooks_of fail = []" "stdout_of fail = []"
    using shutdown_ext by blast
  have t: "tool_calls_only e (f0 @ ext @ ?n)"
    using m(1) s(2) by (simp add: hooks_of_Nil_tool_calls_only)
  have tr: "fst (main e inp) = ?b # Hook ?start # (f0 @ ext @ ?n) @ Hook ?end # fail @ [?sum]"
    unfolding m(2) fst_conv snd_conv f(1) by (subst s(1)) (simp add: hook_cmd_def)
  have h: "hooks_of (fst (main e inp)) = ?start # hooks_of (f0 @ ext @ ?n) @ [?end]"
    unfolding tr by (simp add: hooks_of_append f(2))
  have c1: "filter (\<lambda>cmd. take 2 cmd = [JStr (ACTIVITY_LOGGER e), JStr ''session_start''])
          (hooks_of (fst (main e inp))) = [?start]"
    unfolding h using filter_tool_calls_only [OF t, of "''session_start''"] by simp
  have c2: "filter (\<lambda>cmd. take 2 cmd = [JStr (ACTIVITY_LOGGER e), JStr ''session_end''])
          (hooks_of (fst (main e inp))) = [?end]"
    unfolding h using filter_tool_calls_only [OF t, of "''session_end''"] by simp
  from tr t f(2,3) c1 c2 show ?thesis by blast
qed

theorem session_hooks_witness:
  \<open>filter (\<lambda>cmd. take 2 cmd = [JStr (ACTIVITY_LOGGER sample_env), JStr ''session_start''])
      (hooks_of (fst (main sample_env [Line sample_error_line, Line sample_tool_line])))
     = [[JStr (ACTIVITY_LOGGER sample_env), JStr ''session_start'', JStr ''/work'']]
   \<and> filter (\<lambda>cmd. take 2 cmd = [JStr (ACTIVITY_LOGGER sample_env), JStr ''session_end''])
      (hooks_of (fst (main sample_env [Line sample_error_line, Line sample_tool_line])))
     = [[JStr (ACTIVITY_LOGGER sample_env), JStr ''session_end'', JStr ''1'', JStr ''16'',
         JStr ''250'']]
   \<and> fst (main sample_env [Line sample_error_line, Line sample_tool_line]) =
       [Stderr (''Starting Claude stream parser (session: session-1)'' @ newline),
        Hook [JStr (ACTIVITY_LOGGER sample_env), JStr ''session_start'', JStr ''/work''],
        Stdout sample_error_line,
        Hook [JStr (ACTIVITY_LOGGER sample_env), JStr ''tool_call'', JStr ''error'',
              JStr ''{"error": "boom"}'', JStr ''error'', JStr ''0'', JStr ''0''],
        Stdout sample_tool_line,
        Hook [JStr (ACTIVITY_LOGGER sample_env), JStr ''tool_call'', JStr ''search'',
              JStr ''{"q": "x"}'', JStr ''success'', JStr ''100'', JStr ''16''],
        Hook [JStr (ACTIVITY_LOGGER sample_env), JStr ''session_end'', JStr ''1'', JStr ''16'',
              JStr ''250''],
        Stderr (''Session ended: 1 activities logged'' @ newline)]\<close>
proof -
  have c0: "fst (snd (main sample_env [Line sample_error_line, Line sample_tool_line]))
      = \<lparr>activity_count = 1, total_tokens = 16\<rparr>"
    by (simp add: sample_defs run_defs)
  have d: "getcwd sample_env = ''/work''" "elapsed_ms sample_env = 250"
    by (simp_all add: sample_env_def)
  have s: "str_int 16 = ''16''" "str_int 1 = ''1''" "str_int 250 = ''250''"
    by (simp_all add: str_int_def digits_of.simps)
  have ev: \<open>fst (main sample_env [Line sample_error_line, Line sample_tool_line]) =
       [Stderr (''Starting Claude stream parser (session: session-1)'' @ newline),
        Hook [JStr (ACTIVITY_LOGGER sample_env), JStr ''session_start'', JStr ''/work''],
        Stdout sample_error_line,
        Hook [JStr (ACTIVITY_LOGGER sample_env), JStr ''tool_call'', JStr ''error'',
              JStr ''{"error": "boom"}'', JStr ''error'', JStr ''0'', JStr ''0''],
        Stdout sample_tool_line,
        Hook [JStr (ACTIVITY_LOGGER sample_env), JStr ''tool_call'', JStr ''search'',
              JStr ''{"q": "x"}'', JStr ''success'', JStr ''100'', JStr ''16''],
        Hook [JStr (ACTIVITY_LOGGER sample_env), JStr ''session_end'', JStr ''1'', JStr ''16'',
              JStr ''250''],
        Stderr (''Session ended: 1 activities logged'' @ newline)]\<close>
    by (simp add: sample_defs run_defs)
  note r = session_hooks [of sample_env "[Line sample_error_line, Line sample_tool_line]",
      unfolded c0 d]
  from r have a: "filter (\<lambda>cmd. take 2 cmd = [JStr (ACTIVITY_LOGGER sample_env), JStr ''session_start''])
      (hooks_of (fst (main sample_env [Line sample_error_line, Line sample_tool_line])))
     = [[JStr (ACTIVITY_LOGGER sample_env), JStr ''session_start'', JStr ''/work'']]"
    by blast
  from r have "filter (\<lambda>cmd. take 2 cmd = [JStr (ACTIVITY_LOGGER sample_env), JStr ''session_end''])
      (hooks_of (fst (main sample_env [Line sample_error_line, Line sample_tool_line])))
     = [[JStr (ACTIVITY_LOGGER sample_env), JStr ''session_end'',
         JStr (str_int (activity_count \<lparr>activity_count = 1, total_tokens = 16\<rparr>)),
         JStr (str_int (total_tokens \<lparr>activity_count = 1, total_tokens = 16\<rparr>)),
         JStr (str_int 250)]]"
    by blast
  then have b: "filter (\<lambda>cmd. take 2 cmd = [JStr (ACTIVITY_LOGGER sample_env), JStr ''session_end''])
      (hooks_of (fst (main sample_env [Line sample_error_line, Line sample_tool_line])))
     = [[JStr (ACTIVITY_LOGGER sample_env), JStr ''session_end'', JStr ''1'', JStr ''16'',
         JStr ''250'']]"
    by (simp add: s)
  from a b ev show ?thesis by blast
qed

subsection \<open>Interruption\<close>

text \<open>
  C8. When the interruption arrives while the loop waits for the next line (the lines
  before it were all read, and none of them raised), nothing that follows it in the input
  is read: the run is the same whatever follows, and the output is the lines before the
  interruption. The notice of the interruption is followed at once by the call with the
  kind \<^verbatim>\<open>session_end\<close>, with the counters as they stood, and the summary; no exception
  leaves \<^verbatim>\<open>main\<close>.
\<close>

theorem interrupted_run:
  assumes "Interrupt \<notin> set pre" and "snd (snd (main e pre)) = None"
  shows "main e (pre @ Interrupt # rest) = main e (pre @ [Interrupt])
    \<and> snd (snd (main e (pre @ Interrupt # rest))) = None
    \<and> fst (snd (main e (pre @ Interrupt # rest))) = fst (snd (main e pre))
    \<and> stdout_of (fst (main e (pre @ Interrupt # rest))) = lines_of pre
    \<and> (\<exists>tr fail.
         fst (main e (pre @ Interrupt # rest)) =
           tr @ Stderr (newline @ ''Stream parsing interrupted'' @ newline)
           # Hook (hook_cmd e ''session_end''
               [JStr (str_int (activity_count (fst (snd (main e pre))))),
                JStr (str_int (total_tokens (fst (snd (main e pre))))),
                JStr (str_int (elapsed_ms e))])
           # fail
           @ [Stderr (''Session ended: '' @ str_int (activity_count (fst (snd (main e pre))))
                @ '' activities logged'' @ newline)]
         \<and> hooks_of fail = [] \<and> stdout_of fail = [])"
proof -
  let ?st = "(\<lparr>activity_count = 0, total_tokens = 0\<rparr>, startup e)"
  let ?n = "Stderr (newline @ ''Stream parsing interrupted'' @ newline)"
  obtain c ext where p: "main_loop e ?st pre = (c, startup e @ ext, None)"
      "stdout_of ext = lines_of pre" "fst (snd (main e pre)) = c"
    using main_reads_all [OF assms] by blast
  have same: "main e (pre @ Interrupt # rest) = main e (pre @ [Interrupt])"
    by (simp add: main_def main_loop_interrupt [of e _ pre rest])
  have "main_loop e ?st (pre @ Interrupt # rest) = (c, startup e @ ext, Some KeyboardInterrupt)"
    using main_loop_append [OF p(1)] by simp
  then have m: "main e (pre @ Interrupt # rest) = (shutdown e c ((startup e @ ext) @ [?n]), c, None)"
    by (rule main_keyboard_interrupt)
  obtain fail where f: "shutdown e c ((startup e @ ext) @ [?n]) =
      ((startup e @ ext) @ [?n]) @ Hook (hook_cmd e ''session_end''
             [JStr (str_int (activity_count c)), JStr (str_int (total_tokens c)),
              JStr (str_int (elapsed_ms e))])
         # fail
         @ [Stderr (''Session ended: '' @ str_int (activity_count c) @ '' activities logged''
              @ newline)]"
      "hooks_of fail = []" "stdout_of fail = []"
    using shutdown_ext by blast
  obtain f0 where s: "startup e =
      Stderr (''Starting Claude stream parser (session: '' @ SESSION_ID e @ '')'' @ newline)
        # Hook (hook_cmd e ''session_start'' [JStr (getcwd e)]) # f0"
      "stdout_of f0 = []"
    using startup_ext by blast
  have s0: "stdout_of (startup e) = []"
    by (subst s(1)) (simp add: s(2))
  have out: "stdout_of (fst (main e (pre @ Interrupt # rest))) = lines_of pre"
    unfolding m fst_conv f(1) using p(2) f(3) s0 by (simp add: stdout_of_append)
  have "fst (main e (pre @ Interrupt # rest)) =
           (startup e @ ext) @ ?n
           # Hook (hook_cmd e ''session_end''
               [JStr (str_int (activity_count (fst (snd (main e pre))))),
                JStr (str_int (total_tokens (fst (snd (main e pre))))),
                JStr (str_int (elapsed_ms e))])
           # fail
           @ [Stderr (''Session ended: '' @ str_int (activity_count (fst (snd (main e pre))))
                @ '' activities logged'' @ newline)]"
    unfolding m fst_conv f(1) p(3) by simp
  with f(2,3) have ex: "\<exists>tr fail.
         fst (main e (pre @ Interrupt # rest)) =
           tr @ ?n
           # Hook (hook_cmd e ''session_end''
               [JStr (str_int (activity_count (fst (snd (main e pre))))),
                JStr (str_int (total_tokens (fst (snd (main e pre))))),
                JStr (str_int (elapsed_ms e))])
           # fail
           @ [Stderr (''Session ended: '' @ str_int (activity_count (fst (snd (main e pre))))
                @ '' activities logged'' @ newline)]
         \<and> hooks_of fail = [] \<and> stdout_of fail = []"
    by blast
  have exc: "snd (snd (main e (pre @ Interrupt # rest))) = None"
    by (simp add: m)
  have cnt: "fst (snd (main e (pre @ Interrupt # rest))) = fst (snd (main e pre))"
    by (simp add: m p(3))
  from same exc cnt out ex show ?thesis by blast
qed

theorem interrupted_run_witness:
  "Interrupt \<notin> set [Line sample_tool_line]
   \<and> snd (snd (main sample_env [Line sample_tool_line])) = None
   \<and> main sample_env [Line sample_tool_line, Interrupt, Line sample_error_line]
      = main sample_env [Line sample_tool_line, Interrupt]
   \<and> stdout_of (fst (main sample_env [Line sample_tool_line, Interrupt, Line sample_error_line]))
      = [sample_tool_line]
   \<and> main sample_env [Line sample_tool_line, Interrupt, Line sample_error_line] =
       ([Stderr (''Starting Claude stream parser (session: session-1)'' @ newline),
         Hook [JStr (ACTIVITY_LOGGER sample_env), JStr ''session_start'', JStr ''/work''],
         Stdout sample_tool_line,
         Hook [JStr (ACTIVITY_LOGGER sample_env), JStr ''tool_call'', JStr ''search'',
               JStr (json_dumps sample_env (JObj [(''q'', JStr ''x'')])), JStr ''success'',
               JStr ''100'', JStr ''16''],
         Stderr (newline @ ''Stream parsing interrupted'' @ newline),
         Hook [JStr (ACTIVITY_LOGGER sample_env), JStr ''session_end'', JStr ''1'', JStr ''16'',
               JStr ''250''],
         Stderr (''Session ended: 1 activities logged'' @ newline)],
        \<lparr>activity_count = 1, total_tokens = 16\<rparr>, None)"
proof -
  have h1: "Interrupt \<notin> set [Line sample_tool_line]"
    by simp
  have h2: "snd (snd (main sample_env [Line sample_tool_line])) = None"
    by (simp add: sample_defs run_defs)
  have ev: "main sample_env [Line sample_tool_line, Interrupt] =
       ([Stderr (''Starting Claude stream parser (session: session-1)'' @ newline),
         Hook [JStr (ACTIVITY_LOGGER sample_env), JStr ''session_start'', JStr ''/work''],
         Stdout sample_tool_line,
         Hook [JStr (ACTIVITY_LOGGER sample_env), JStr ''tool_call'', JStr ''search'',
               JStr (json_dumps sample_env (JObj [(''q'', JStr ''x'')])), JStr ''success'',
               JStr ''100'', JStr ''16''],
         Stderr (newline @ ''Stream parsing interrupted'' @ newline),
         Hook [JStr (ACTIVITY_LOGGER sample_env), JStr ''session_end'', JStr ''1'', JStr ''16'',
               JStr ''250''],
         Stderr (''Session ended: 1 activities logged'' @ newline)],
        \<lparr>activity_count = 1, total_tokens = 16\<rparr>, None)"
    by (simp add: sample_defs run_defs)
  have l: "lines_of [Line sample_tool_line] = [sample_tool_line]"
    by simp
  note r = interrupted_run [OF h1 h2, of "[Line sample_error_line]"]
  from r have "main sample_env ([Line sample_tool_line] @ Interrupt # [Line sample_error_line])
      = main sample_env ([Line sample_tool_line] @ [Interrupt])"
    by blast
  then have a: "main sample_env [Line sample_tool_line, Interrupt, Line sample_error_line]
      = main sample_env [Line sample_tool_line, Interrupt]"
    by simp
  from r have "stdout_of (fst (main sample_env
        ([Line sample_tool_line] @ Interrupt # [Line sample_error_line])))
      = lines_of [Line sample_tool_line]"
    by blast
  then have b: "stdout_of (fst (main sample_env
        [Line sample_tool_line, Interrupt, Line sample_error_line])) = [sample_tool_line]"
    by simp
  have ev': "main sample_env [Line sample_tool_line, Interrupt, Line sample_error_line] =
       ([Stderr (''Starting Claude stream parser (session: session-1)'' @ newline),
         Hook [JStr (ACTIVITY_LOGGER sample_env), JStr ''session_start'', JStr ''/work''],
         Stdout sample_tool_line,
         Hook [JStr (ACTIVITY_LOGGER sample_env), JStr ''tool_call'', JStr ''search'',
               JStr (json_dumps sample_env (JObj [(''q'', JStr ''x'')])), JStr ''success'',
               JStr ''100'', JStr ''16''],
         Stderr (newline @ ''Stream parsing interrupted'' @ newline),
         Hook [JStr (ACTIVITY_LOGGER sample_env), JStr ''session_end'', JStr ''1'', JStr ''16'',
               JStr ''250''],
         Stderr (''Session ended: 1 activities logged'' @ newline)],
        \<lparr>activity_count = 1, total_tokens = 16\<rparr>, None)"
    unfolding a by (rule ev)
  from h1 h2 a b ev' show ?thesis by blast
qed

subsection \<open>A line that is JSON but not an object\<close>

text \<open>
  C9. When a line decodes to a value that is not a dict (the lines before it were all read,
  and none of them raised), the \<^verbatim>\<open>AttributeError\<close> leaves \<^verbatim>\<open>main\<close>, and before it does the
  \<^verbatim>\<open>finally\<close> block runs: the echo of the line is followed at once by the call with the
  kind \<^verbatim>\<open>session_end\<close>, with the counters accumulated over the lines before, and the trace
  ends with the summary. No later line is echoed.
\<close>

theorem non_object_line:
  assumes "Interrupt \<notin> set pre" and "snd (snd (main e pre)) = None"
    and "json_loads e (strip line) = Some v" and "\<forall>data. v \<noteq> JObj data"
  shows "snd (snd (main e (pre @ Line line # rest))) = Some AttributeError
    \<and> fst (snd (main e (pre @ Line line # rest))) = fst (snd (main e pre))
    \<and> stdout_of (fst (main e (pre @ Line line # rest))) = lines_of pre @ [line]
    \<and> (\<exists>tr fail.
         fst (main e (pre @ Line line # rest)) =
           tr @ Stdout line
           # Hook (hook_cmd e ''session_end''
               [JStr (str_int (activity_count (fst (snd (main e pre))))),
                JStr (str_int (total_tokens (fst (snd (main e pre))))),
                JStr (str_int (elapsed_ms e))])
           # fail
           @ [Stderr (''Session ended: '' @ str_int (activity_count (fst (snd (main e pre))))
                @ '' activities logged'' @ newline)]
         \<and> hooks_of fail = [] \<and> stdout_of fail = [])"
proof -
  let ?st = "(\<lparr>activity_count = 0, total_tokens = 0\<rparr>, startup e)"
  obtain c ext where p: "main_loop e ?st pre = (c, startup e @ ext, None)"
      "stdout_of ext = lines_of pre" "fst (snd (main e pre)) = c"
    using main_reads_all [OF assms(1,2)] by blast
  have b: "main_body e (c, startup e @ ext) line
      = (c, (startup e @ ext) @ [Stdout line], Some AttributeError)"
    using assms(3,4) by (cases v) (simp_all add: main_body_def)
  have "main_loop e ?st (pre @ Line line # rest)
      = (c, (startup e @ ext) @ [Stdout line], Some AttributeError)"
    using main_loop_append [OF p(1)] b by simp
  then have m: "main e (pre @ Line line # rest)
      = (shutdown e c ((startup e @ ext) @ [Stdout line]), c, Some AttributeError)"
    by (rule main_attribute_error)
  obtain fail where f: "shutdown e c ((startup e @ ext) @ [Stdout line]) =
      ((startup e @ ext) @ [Stdout line]) @ Hook (hook_cmd e ''session_end''
             [JStr (str_int (activity_count c)), JStr (str_int (total_tokens c)),
              JStr (str_int (elapsed_ms e))])
         # fail
         @ [Stderr (''Session ended: '' @ str_int (activity_count c) @ '' activities logged''
              @ newline)]"
      "hooks_of fail = []" "stdout_of fail = []"
    using shutdown_ext by blast
  obtain f0 where s: "startup e =
      Stderr (''Starting Claude stream parser (session: '' @ SESSION_ID e @ '')'' @ newline)
        # Hook (hook_cmd e ''session_start'' [JStr (getcwd e)]) # f0"
      "stdout_of f0 = []"
    using startup_ext by blast
  have s0: "stdout_of (startup e) = []"
    by (subst s(1)) (simp add: s(2))
  have out: "stdout_of (fst (main e (pre @ Line line # rest))) = lines_of pre @ [line]"
    unfolding m fst_conv f(1) using p(2) f(3) s0 by (simp add: stdout_of_append)
  have "fst (main e (pre @ Line line # rest)) =
           (startup e @ ext) @ Stdout line
           # Hook (hook_cmd e ''session_end''
               [JStr (str_int (activity_count (fst (snd (main e pre))))),
                JStr (str_int (total_tokens (fst (snd (main e pre))))),
                JStr (str_int (elapsed_ms e))])
           # fail
           @ [Stderr (''Session ended: '' @ str_int (activity_count (fst (snd (main e pre))))
                @ '' activities logged'' @ newline)]"
    unfolding m fst_conv f(1) p(3) by simp
  with f(2,3) have ex: "\<exists>tr fail.
         fst (main e (pre @ Line line # rest)) =
           tr @ Stdout line
           # Hook (hook_cmd e ''session_end''
               [JStr (str_int (activity_count (fst (snd (main e pre))))),
                JStr (str_int (total_tokens (fst (snd (main e pre))))),
                JStr (str_int (elapsed_ms e))])
           # fail
           @ [Stderr (''Session ended: '' @ str_int (activity_count (fst (snd (main e pre))))
                @ '' activities logged'' @ newline)]
         \<and> hooks_of fail = [] \<and> stdout_of fail = []"
    by blast
  have exc: "snd (snd (main e (pre @ Line line # rest))) = Some AttributeError"
    by (simp add: m)
  have cnt: "fst (snd (main e (pre @ Line line # rest))) = fst (snd (main e pre))"
    by (simp add: m p(3))
  from exc cnt out ex show ?thesis by blast
qed

theorem non_object_line_witness:
  "Interrupt \<notin> set [Line sample_tool_line]
   \<and> snd (snd (main sample_env [Line sample_tool_line])) = None
   \<and> json_loads sample_env (strip sample_array_line) = Some (JArr [JInt 1])
   \<and> (\<forall>data. JArr [JInt 1] \<noteq> JObj data)
   \<and> snd (snd (main sample_env
         [Line sample_tool_line, Line sample_array_line, Line sample_error_line]))
      = Some AttributeError
   \<and> fst (snd (main sample_env
         [Line sample_tool_line, Line sample_array_line, Line sample_error_line]))
      = \<lparr>activity_count = 1, total_tokens = 16\<rparr>
   \<and> stdout_of (fst (main sample_env
         [Line sample_tool_line, Line sample_array_line, Line sample_error_line]))
      = [sample_tool_line, sample_array_line]
   \<and> hooks_of (fst (main sample_env
         [Line sample_tool_line, Line sample_array_line, Line sample_error_line])) =
       [[JStr (ACTIVITY_LOGGER sample_env), JStr ''session_start'', JStr ''/work''],
        [JStr (ACTIVITY_LOGGER sample_env), JStr ''tool_call'', JStr ''search'',
         JStr (json_dumps sample_env (JObj [(''q'', JStr ''x'')])), JStr ''success'',
         JStr ''100'', JStr ''16''],
        [JStr (ACTIVITY_LOGGER sample_env), JStr ''session_end'', JStr ''1'', JStr ''16'',
         JStr ''250'']]"
proof -
  have h1: "Interrupt \<notin> set [Line sample_tool_line]"
    by simp
  have h2: "snd (snd (main sample_env [Line sample_tool_line])) = None"
    by (simp add: sample_defs run_defs)
  have h3: "json_loads sample_env (strip sample_array_line) = Some (JArr [JInt 1])"
    by (simp add: sample_defs strip_def isspace_def newline_def)
  have h4: "\<forall>data. JArr [JInt 1] \<noteq> JObj data"
    by simp
  have c: "fst (snd (main sample_env [Line sample_tool_line]))
      = \<lparr>activity_count = 1, total_tokens = 16\<rparr>"
    by (simp add: sample_defs run_defs)
  have ev: "hooks_of (fst (main sample_env
         [Line sample_tool_line, Line sample_array_line, Line sample_error_line])) =
       [[JStr (ACTIVITY_LOGGER sample_env), JStr ''session_start'', JStr ''/work''],
        [JStr (ACTIVITY_LOGGER sample_env), JStr ''tool_call'', JStr ''search'',
         JStr (json_dumps sample_env (JObj [(''q'', JStr ''x'')])), JStr ''success'',
         JStr ''100'', JStr ''16''],
        [JStr (ACTIVITY_LOGGER sample_env), JStr ''session_end'', JStr ''1'', JStr ''16'',
         JStr ''250'']]"
    by (simp add: sample_defs run_defs)
  have l: "lines_of [Line sample_tool_line] = [sample_tool_line]"
    by simp
  note r = non_object_line [OF h1 h2 h3 h4, of "[Line sample_error_line]"]
  from r have "snd (snd (main sample_env
         ([Line sample_tool_line] @ Line sample_array_line # [Line sample_error_line])))
      = Some AttributeError"
    by blast
  then have a: "snd (snd (main sample_env
         [Line sample_tool_line, Line sample_array_line, Line sample_error_line]))
      = Some AttributeError"
    by simp
  from r have "fst (snd (main sample_env
         ([Line sample_tool_line] @ Line sample_array_line # [Line sample_error_line])))
      = fst (snd (main sample_env [Line sample_tool_line]))"
    by blast
  then have b: "fst (snd (main sample_env
         [Line sample_tool_line, Line sample_array_line, Line sample_error_line]))
      = \<lparr>activity_count = 1, total_tokens = 16\<rparr>"
    by (simp add: c)
  from r have "stdout_of (fst (main sample_env
         ([Line sample_tool_line] @ Line sample_array_line # [Line sample_error_line])))
      = lines_of [Line sample_tool_line] @ [sample_array_line]"
    by blast
  then have d: "stdout_of (fst (main sample_env
         [Line sample_tool_line, Line sample_array_line, Line sample_error_line]))
      = [sample_tool_line, sample_array_line]"
    by simp
  from h1 h2 h3 h4 a b d ev show ?thesis by blast
qed

subsection \<open>Runs that differ in the outcomes of the calls\<close>

lemma effects_simps [simp]:
  "effects [] = []"
  "effects (Stdout s # tr) = Stdout s # effects tr"
  "effects (Hook cmd # tr) = Hook cmd # effects tr"
  "effects (Stderr s # tr) = effects tr"
  "effects (xs @ ys) = effects xs @ effects ys"
  by (simp_all add: effects_def)

lemma stdout_of_effects: "stdout_of (effects tr) = stdout_of tr"
  by (induction tr rule: stdout_of.induct) simp_all

lemma hooks_of_effects: "hooks_of (effects tr) = hooks_of tr"
  by (induction tr rule: hooks_of.induct) simp_all

lemma effects_log_to_snowflake:
  "effects (log_to_snowflake e tr k a) = effects tr @ [Hook (hook_cmd e k a)]"
  by (cases "subprocess_run e tr (hook_cmd e k a)") (simp_all add: log_to_snowflake_def)

lemma hook_cmd_oracle: "hook_cmd (e\<lparr>subprocess_run := f\<rparr>) k a = hook_cmd e k a"
  by (simp add: hook_cmd_def)

lemma main_body_oracle:
  assumes "effects tr' = effects tr"
  shows "\<exists>c1 t1 t1' r. main_body e (c, tr) line = (c1, t1, r)
      \<and> main_body (e\<lparr>subprocess_run := f\<rparr>) (c, tr') line = (c1, t1', r)
      \<and> effects t1' = effects t1"
proof (cases "json_loads e (strip line)")
  case None
  with assms show ?thesis by (simp add: main_body_def)
next
  case (Some v)
  show ?thesis
  proof (cases v)
    case (JObj data)
    have l: "json_loads (e\<lparr>subprocess_run := f\<rparr>) (strip line) = Some (JObj data)"
      using Some JObj by simp
    have l0: "json_loads e (strip line) = Some (JObj data)"
      using Some JObj by simp
    consider "dict_get data ''type'' JNull = JStr ''tool_use''"
      | "dict_get data ''type'' JNull = JStr ''error''"
      | "dict_get data ''type'' JNull \<noteq> JStr ''tool_use''"
        "dict_get data ''type'' JNull \<noteq> JStr ''error''"
      by blast
    then show ?thesis
    proof cases
      case 1
      show ?thesis
        unfolding main_body_tool_use [OF l0 1] main_body_tool_use [OF l 1]
        using assms by (simp add: effects_log_to_snowflake hook_cmd_oracle)
    next
      case 2
      show ?thesis
        unfolding main_body_error [OF l0 2] main_body_error [OF l 2]
        using assms by (simp add: effects_log_to_snowflake hook_cmd_oracle)
    next
      case 3
      with l l0 assms show ?thesis by (simp add: main_body_def)
    qed
  qed (use Some assms in \<open>simp_all add: main_body_def\<close>)
qed

lemma main_loop_oracle:
  assumes "effects tr' = effects tr"
  shows "\<exists>c1 t1 t1' r. main_loop e (c, tr) inp = (c1, t1, r)
      \<and> main_loop (e\<lparr>subprocess_run := f\<rparr>) (c, tr') inp = (c1, t1', r)
      \<and> effects t1' = effects t1"
  using assms
proof (induction inp arbitrary: c tr tr')
  case Nil
  then show ?case by simp
next
  case (Cons ev inp)
  show ?case
  proof (cases ev)
    case Interrupt
    with Cons.prems show ?thesis by simp
  next
    case (Line l)
    obtain c1 t1 t1' r where b: "main_body e (c, tr) l = (c1, t1, r)"
        "main_body (e\<lparr>subprocess_run := f\<rparr>) (c, tr') l = (c1, t1', r)"
        "effects t1' = effects t1"
      using main_body_oracle [OF Cons.prems] by blast
    show ?thesis
    proof (cases r)
      case (Some x)
      with b Line show ?thesis by simp
    next
      case None
      with b Line Cons.IH [OF b(3), of c1] show ?thesis by simp
    qed
  qed
qed

lemma effects_shutdown:
  "effects (shutdown e c tr) =
     effects tr @ [Hook (hook_cmd e ''session_end''
        [JStr (str_int (activity_count c)), JStr (str_int (total_tokens c)),
         JStr (str_int (elapsed_ms e))])]"
  by (simp add: shutdown_def effects_log_to_snowflake)

lemma effects_startup:
  "effects (startup e) = [Hook (hook_cmd e ''session_start'' [JStr (getcwd e)])]"
  by (simp add: startup_def effects_log_to_snowflake)

lemma main_oracle:
  "effects (fst (main (e\<lparr>subprocess_run := f\<rparr>) inp)) = effects (fst (main e inp))
   \<and> snd (main (e\<lparr>subprocess_run := f\<rparr>) inp) = snd (main e inp)"
proof -
  have "effects (startup (e\<lparr>subprocess_run := f\<rparr>)) = effects (startup e)"
    by (simp add: effects_startup hook_cmd_oracle)
  then obtain c1 t1 t1' r where
      l: "main_loop e (\<lparr>activity_count = 0, total_tokens = 0\<rparr>, startup e) inp = (c1, t1, r)"
        "main_loop (e\<lparr>subprocess_run := f\<rparr>)
           (\<lparr>activity_count = 0, total_tokens = 0\<rparr>, startup (e\<lparr>subprocess_run := f\<rparr>)) inp
         = (c1, t1', r)"
        "effects t1' = effects t1"
    using main_loop_oracle by blast
  show ?thesis
  proof (cases r)
    case None
    with l show ?thesis
      by (simp add: main_def effects_shutdown hook_cmd_oracle)
  next
    case (Some x)
    with l show ?thesis
      by (cases x) (simp_all add: main_def effects_shutdown hook_cmd_oracle)
  qed
qed

subsection \<open>A failed call of the script\<close>

text \<open>
  C7. When a call of the script raises, \<^verbatim>\<open>log_to_snowflake\<close> reports it on the diagnostic
  stream and returns. And a run does not depend on which calls fail, apart from those
  reports: with any other outcomes of the calls, the echoed lines and the calls of the
  script are the same and in the same order, and so are the counters at the end and the
  exception that leaves \<^verbatim>\<open>main\<close>, if any. A failed call therefore neither stops the relay nor
  changes what is passed through or what is done for the lines after it.
\<close>

theorem hook_failure_contained:
  "(subprocess_run e tr (hook_cmd e k a) = Failed msg \<longrightarrow>
      log_to_snowflake e tr k a =
        tr @ [Hook (hook_cmd e k a), Stderr (''Error logging to Snowflake: '' @ msg @ newline)])
   \<and> effects (fst (main (e\<lparr>subprocess_run := f\<rparr>) inp)) = effects (fst (main e inp))
   \<and> stdout_of (fst (main (e\<lparr>subprocess_run := f\<rparr>) inp)) = stdout_of (fst (main e inp))
   \<and> snd (main (e\<lparr>subprocess_run := f\<rparr>) inp) = snd (main e inp)"
proof -
  have a: "subprocess_run e tr (hook_cmd e k a) = Failed msg \<longrightarrow>
      log_to_snowflake e tr k a =
        tr @ [Hook (hook_cmd e k a), Stderr (''Error logging to Snowflake: '' @ msg @ newline)]"
    by (simp add: log_to_snowflake_def)
  have b: "effects (fst (main (e\<lparr>subprocess_run := f\<rparr>) inp)) = effects (fst (main e inp))"
      "snd (main (e\<lparr>subprocess_run := f\<rparr>) inp) = snd (main e inp)"
    using main_oracle by blast+
  from b(1) have "stdout_of (effects (fst (main (e\<lparr>subprocess_run := f\<rparr>) inp)))
      = stdout_of (effects (fst (main e inp)))"
    by simp
  then have c: "stdout_of (fst (main (e\<lparr>subprocess_run := f\<rparr>) inp)) = stdout_of (fst (main e inp))"
    by (simp only: stdout_of_effects)
  from a b c show ?thesis by blast
qed

theorem hook_failure_contained_witness:
  "subprocess_run failing_env [] (hook_cmd failing_env ''session_start'' [JStr ''/work''])
      = Failed ''[Errno 2] No such file or directory''
   \<and> log_to_snowflake failing_env [] ''session_start'' [JStr ''/work''] =
       [Hook (hook_cmd failing_env ''session_start'' [JStr ''/work'']),
        Stderr (''Error logging to Snowflake: [Errno 2] No such file or directory'' @ newline)]
   \<and> effects (fst (main (failing_env\<lparr>subprocess_run := (\<lambda>tr cmd. Completed)\<rparr>)
          [Line sample_tool_line, Line sample_error_line]))
      = effects (fst (main failing_env [Line sample_tool_line, Line sample_error_line]))
   \<and> stdout_of (fst (main failing_env [Line sample_tool_line, Line sample_error_line]))
      = [sample_tool_line, sample_error_line]
   \<and> snd (main failing_env [Line sample_tool_line, Line sample_error_line])
      = (\<lparr>activity_count = 1, total_tokens = 16\<rparr>, None)"
proof -
  have h: "subprocess_run failing_env [] (hook_cmd failing_env ''session_start'' [JStr ''/work''])
      = Failed ''[Errno 2] No such file or directory''"
    by (simp add: failing_env_def)
  have ev: "stdout_of (fst (main sample_env [Line sample_tool_line, Line sample_error_line]))
      = [sample_tool_line, sample_error_line]"
    "snd (main sample_env [Line sample_tool_line, Line sample_error_line])
      = (\<lparr>activity_count = 1, total_tokens = 16\<rparr>, None)"
    by (simp_all add: sample_defs run_defs)
  have s: "failing_env\<lparr>subprocess_run := (\<lambda>tr cmd. Completed)\<rparr> = sample_env"
    by (simp add: failing_env_def sample_env_def)
  show ?thesis
    using hook_failure_contained [of failing_env "[]" "''session_start''" "[JStr ''/work'']"
        "''[Errno 2] No such file or directory''" "\<lambda>tr cmd. Completed"
        "[Line sample_tool_line, Line sample_error_line]"] h ev
    by (simp add: s)
qed

subsection \<open>Pass-through\<close>

text \<open>
  When the loop reads the input to its end (no interruption, and no exception leaves
  \<^verbatim>\<open>main\<close>), the output is the input, line for line.
\<close>

lemma passthrough_read_to_end:
  assumes "Interrupt \<notin> set inp" and "snd (snd (main e inp)) = None"
  shows "stdout_of (fst (main e inp)) = lines_of inp"
proof -
  obtain c ext where p: "main_loop e (\<lparr>activity_count = 0, total_tokens = 0\<rparr>, startup e) inp
            = (c, startup e @ ext, None)" "stdout_of ext = lines_of inp"
    using main_reads_all [OF assms] by blast
  have m: "main e inp = (shutdown e c (startup e @ ext), c, None)"
    using p(1) by (rule main_exhausted)
  obtain fail where f: "shutdown e c (startup e @ ext) =
      (startup e @ ext) @ Hook (hook_cmd e ''session_end''
             [JStr (str_int (activity_count c)), JStr (str_int (total_tokens c)),
              JStr (str_int (elapsed_ms e))])
         # fail
         @ [Stderr (''Session ended: '' @ str_int (activity_count c) @ '' activities logged''
              @ newline)]"
      "stdout_of fail = []"
    using shutdown_ext by blast
  have "stdout_of (effects (startup e)) = []"
    by (simp add: effects_startup)
  then have s0: "stdout_of (startup e) = []"
    by (simp only: stdout_of_effects)
  show ?thesis
    unfolding m fst_conv f(1) using p(2) f(2) s0 by (simp add: stdout_of_append)
qed

text \<open>
  C1. The claim is that the lines written to standard output are the input lines, each
  once and in order, whatever the lines hold. In the sample run below the first line is
  valid JSON but an array and the second is a \<^verbatim>\<open>tool_use\<close> event: the first line is echoed,
  the second never is, so the output is not the input.
\<close>

theorem passthrough_cut_short:
  "stdout_of (fst (main sample_env [Line sample_array_line, Line sample_tool_line]))
      = [sample_array_line]
   \<and> lines_of [Line sample_array_line, Line sample_tool_line]
      = [sample_array_line, sample_tool_line]
   \<and> stdout_of (fst (main sample_env [Line sample_array_line, Line sample_tool_line]))
      \<noteq> lines_of [Line sample_array_line, Line sample_tool_line]"
  by (simp add: sample_defs run_defs)

subsection \<open>The exits of the loop\<close>

text \<open>
  C4. The claim is that no line ends the loop and that the loop is left only at the end of
  the stream or by an interruption. In the sample run below the first line is valid JSON
  but an array: the lookup of its \<^verbatim>\<open>type\<close> raises \<^verbatim>\<open>AttributeError\<close>, the loop is left
  with a line still unread and no interruption, the session end is logged, and the
  exception leaves \<^verbatim>\<open>main\<close>. The event of the second line is never logged.
\<close>

theorem array_line_ends_loop:
  "main_loop sample_env (\<lparr>activity_count = 0, total_tokens = 0\<rparr>, [])
      [Line sample_array_line, Line sample_tool_line]
     = (\<lparr>activity_count = 0, total_tokens = 0\<rparr>, [Stdout sample_array_line],
        Some AttributeError)
   \<and> main sample_env [Line sample_array_line, Line sample_tool_line] =
      ([Stderr (''Starting Claude stream parser (session: session-1)'' @ newline),
        Hook [JStr (ACTIVITY_LOGGER sample_env), JStr ''session_start'', JStr ''/work''],
        Stdout sample_array_line,
        Hook [JStr (ACTIVITY_LOGGER sample_env), JStr ''session_end'', JStr ''0'', JStr ''0'',
              JStr ''250''],
        Stderr (''Session ended: 0 activities logged'' @ newline)],
       \<lparr>activity_count = 0, total_tokens = 0\<rparr>, Some AttributeError)"
  by (simp add: sample_defs run_defs)

subsection \<open>A run that has read a stretch of input\<close>

lemma hooks_of_shutdown:
  "hooks_of (shutdown e c tr) =
     hooks_of tr @ [[JStr (ACTIVITY_LOGGER e), JStr ''session_end'',
        JStr (str_int (activity_count c)), JStr (str_int (total_tokens c)),
        JStr (str_int (elapsed_ms e))]]"
proof -
  have "hooks_of (effects (shutdown e c tr)) =
     hooks_of (effects tr) @ [[JStr (ACTIVITY_LOGGER e), JStr ''session_end'',
        JStr (str_int (activity_count c)), JStr (str_int (total_tokens c)),
        JStr (str_int (elapsed_ms e))]]"
    by (simp add: effects_shutdown hooks_of_append hook_cmd_def)
  then show ?thesis by (simp only: hooks_of_effects)
qed

lemma stdout_of_shutdown: "stdout_of (shutdown e c tr) = stdout_of tr"
proof -
  have "stdout_of (effects (shutdown e c tr)) = stdout_of (effects tr)"
    by (simp add: effects_shutdown stdout_of_append)
  then show ?thesis by (simp only: stdout_of_effects)
qed

lemma stdout_of_startup: "stdout_of (startup e) = []"
proof -
  have "stdout_of (effects (startup e)) = []"
    by (simp add: effects_startup)
  then show ?thesis by (simp only: stdout_of_effects)
qed

text \<open>What is known of a run once the loop has read a stretch of input to its end.\<close>

lemma main_reached:
  assumes "Interrupt \<notin> set pre" and "snd (snd (main e pre)) = None"
  shows "\<exists>tr. main_loop e (\<lparr>activity_count = 0, total_tokens = 0\<rparr>, startup e) pre
            = (fst (snd (main e pre)), tr, None)
          \<and> stdout_of tr = lines_of pre
          \<and> main e pre = (shutdown e (fst (snd (main e pre))) tr, fst (snd (main e pre)), None)"
proof -
  obtain c ext where p: "main_loop e (\<lparr>activity_count = 0, total_tokens = 0\<rparr>, startup e) pre
            = (c, startup e @ ext, None)" "stdout_of ext = lines_of pre"
      "fst (snd (main e pre)) = c"
    using main_reads_all [OF assms] by blast
  have "main e pre = (shutdown e c (startup e @ ext), c, None)"
    using p(1) by (rule main_exhausted)
  moreover have "stdout_of (startup e @ ext) = lines_of pre"
    by (simp add: stdout_of_append stdout_of_startup p(2))
  ultimately show ?thesis using p(1,3) by auto
qed


subsection \<open>A \<^verbatim>\<open>tool_use\<close> line in a run\<close>



subsection \<open>An \<^verbatim>\<open>error\<close> line in a run\<close>



lemma main_body_unrecognised:
  assumes "\<not> (\<exists>data. json_loads e (strip line) = Some (JObj data)
            \<and> (dict_get data ''type'' JNull = JStr ''tool_use''
               \<or> dict_get data ''type'' JNull = JStr ''error''))"
  shows "main_body e (c, tr) line =
     (c, tr @ [Stdout line],
      if json_loads e (strip line) = None \<or> (\<exists>data. json_loads e (strip line) = Some (JObj data))
      then None else Some AttributeError)"
proof (cases "json_loads e (strip line)")
  case None
  then show ?thesis by (simp add: main_body_def)
next
  case (Some v)
  with assms show ?thesis
    by (cases v) (auto simp: main_body_def)
qed

subsection \<open>Every other line in a run\<close>

text \<open>
  C6. In a run that reaches a line which is no recognised event (the input before it was
  read to its end), the line is echoed and nothing else is done for it. Such a line does
  not decode as JSON, or decodes to a dict whose \<^verbatim>\<open>type\<close> is neither \<^verbatim>\<open>"tool_use"\<close> nor
  \<^verbatim>\<open>"error"\<close> or is absent, or decodes to a value that is not a dict. The run that ends
  with the line makes the same calls of the script as the run that ends before it, ends
  with the same counters, and has the line more on its output. After a line of the first
  two kinds the loop goes on with the rest of the input; a line of the third kind is
  echoed all the same, and then the \<^verbatim>\<open>AttributeError\<close> ends the loop.
\<close>

theorem unrecognised_line:
  assumes "Interrupt \<notin> set pre" and "snd (snd (main e pre)) = None"
    and "\<not> (\<exists>data. json_loads e (strip line) = Some (JObj data)
            \<and> (dict_get data ''type'' JNull = JStr ''tool_use''
               \<or> dict_get data ''type'' JNull = JStr ''error''))"
  shows "\<exists>tr.
     main_loop e (\<lparr>activity_count = 0, total_tokens = 0\<rparr>, startup e) pre
       = (fst (snd (main e pre)), tr, None)
   \<and> main_loop e (\<lparr>activity_count = 0, total_tokens = 0\<rparr>, startup e) (pre @ Line line # rest)
       = (if json_loads e (strip line) = None
             \<or> (\<exists>data. json_loads e (strip line) = Some (JObj data))
          then main_loop e (fst (snd (main e pre)), tr @ [Stdout line]) rest
          else (fst (snd (main e pre)), tr @ [Stdout line], Some AttributeError))
   \<and> fst (snd (main e (pre @ [Line line]))) = fst (snd (main e pre))
   \<and> snd (snd (main e (pre @ [Line line])))
       = (if json_loads e (strip line) = None
             \<or> (\<exists>data. json_loads e (strip line) = Some (JObj data))
          then None else Some AttributeError)
   \<and> stdout_of (fst (main e (pre @ [Line line]))) = lines_of pre @ [line]
   \<and> hooks_of (fst (main e (pre @ [Line line]))) = hooks_of (fst (main e pre))"
proof -
  let ?c = "fst (snd (main e pre))"
  let ?st = "(\<lparr>activity_count = 0, total_tokens = 0\<rparr>, startup e)"
  let ?ok = "json_loads e (strip line) = None
             \<or> (\<exists>data. json_loads e (strip line) = Some (JObj data))"
  obtain tr where p: "main_loop e ?st pre = (?c, tr, None)" "stdout_of tr = lines_of pre"
      "main e pre = (shutdown e ?c tr, ?c, None)"
    using main_reached [OF assms(1,2)] by blast
  have b: "main_body e (?c, tr) line =
     (?c, tr @ [Stdout line], if ?ok then None else Some AttributeError)"
    using assms(3) by (rule main_body_unrecognised)
  have l: "main_loop e ?st (pre @ Line line # rest) =
       (if ?ok then main_loop e (?c, tr @ [Stdout line]) rest
        else (?c, tr @ [Stdout line], Some AttributeError))" for rest
    using main_loop_append [OF p(1), of "Line line # rest"] b by simp
  have m: "main e (pre @ [Line line]) =
      (shutdown e ?c (tr @ [Stdout line]), ?c, if ?ok then None else Some AttributeError)"
  proof (cases ?ok)
    case True
    with l [of "[]"] have "main_loop e ?st (pre @ [Line line]) = (?c, tr @ [Stdout line], None)"
      by simp
    then have "main e (pre @ [Line line]) = (shutdown e ?c (tr @ [Stdout line]), ?c, None)"
      by (rule main_exhausted)
    with True show ?thesis by simp
  next
    case False
    with l [of "[]"] have "main_loop e ?st (pre @ [Line line])
        = (?c, tr @ [Stdout line], Some AttributeError)"
      by simp
    then have "main e (pre @ [Line line])
        = (shutdown e ?c (tr @ [Stdout line]), ?c, Some AttributeError)"
      by (rule main_attribute_error)
    with False show ?thesis by simp
  qed
  have h0: "hooks_of (fst (main e pre)) = hooks_of (shutdown e ?c tr)"
    by (subst p(3)) simp
  have h1: "hooks_of (fst (main e (pre @ [Line line]))) = hooks_of (fst (main e pre))"
    unfolding h0 by (simp add: m hooks_of_shutdown hooks_of_append)
  have o: "stdout_of (fst (main e (pre @ [Line line]))) = lines_of pre @ [line]"
    by (simp add: m stdout_of_shutdown stdout_of_append p(2))
  have c: "fst (snd (main e (pre @ [Line line]))) = ?c"
    "snd (snd (main e (pre @ [Line line]))) = (if ?ok then None else Some AttributeError)"
    by (simp_all add: m)
  from p(1) l [of rest] c o h1 show ?thesis by blast
qed

theorem unrecognised_line_witness:
  \<open>Interrupt \<notin> set [Line sample_tool_line]
   \<and> snd (snd (main sample_env [Line sample_tool_line])) = None
   \<and> json_loads sample_env (strip sample_text_line) = None
   \<and> json_loads sample_env (strip sample_array_line) = Some (JArr [JInt 1])
   \<and> fst (snd (main sample_env [Line sample_tool_line]))
      = \<lparr>activity_count = 1, total_tokens = 16\<rparr>
   \<and> hooks_of (fst (main sample_env [Line sample_tool_line])) =
       [[JStr (ACTIVITY_LOGGER sample_env), JStr ''session_start'', JStr ''/work''],
        [JStr (ACTIVITY_LOGGER sample_env), JStr ''tool_call'', JStr ''search'',
         JStr ''{"q": "x"}'', JStr ''success'', JStr ''100'', JStr ''16''],
        [JStr (ACTIVITY_LOGGER sample_env), JStr ''session_end'', JStr ''1'', JStr ''16'',
         JStr ''250'']]
   \<and> fst (snd (main sample_env [Line sample_tool_line, Line sample_text_line]))
      = \<lparr>activity_count = 1, total_tokens = 16\<rparr>
   \<and> snd (snd (main sample_env [Line sample_tool_line, Line sample_text_line]))
      = None
   \<and> stdout_of (fst (main sample_env
        [Line sample_tool_line, Line sample_text_line]))
      = [sample_tool_line, sample_text_line]
   \<and> hooks_of (fst (main sample_env
        [Line sample_tool_line, Line sample_text_line]))
      = hooks_of (fst (main sample_env [Line sample_tool_line]))
   \<and> json_loads sample_env (strip sample_other_line) = Some (JObj [(''type'', JStr ''text'')])
   \<and> fst (snd (main sample_env [Line sample_tool_line, Line sample_other_line]))
      = \<lparr>activity_count = 1, total_tokens = 16\<rparr>
   \<and> snd (snd (main sample_env [Line sample_tool_line, Line sample_other_line])) = None
   \<and> stdout_of (fst (main sample_env [Line sample_tool_line, Line sample_other_line]))
      = [sample_tool_line, sample_other_line]
   \<and> hooks_of (fst (main sample_env [Line sample_tool_line, Line sample_other_line]))
      = hooks_of (fst (main sample_env [Line sample_tool_line]))
   \<and> fst (snd (main sample_env [Line sample_tool_line, Line sample_array_line]))
      = \<lparr>activity_count = 1, total_tokens = 16\<rparr>
   \<and> snd (snd (main sample_env [Line sample_tool_line, Line sample_array_line]))
      = Some AttributeError
   \<and> stdout_of (fst (main sample_env [Line sample_tool_line, Line sample_array_line]))
      = [sample_tool_line, sample_array_line]
   \<and> hooks_of (fst (main sample_env [Line sample_tool_line, Line sample_array_line]))
      = hooks_of (fst (main sample_env [Line sample_tool_line]))\<close>
proof -
  have h1: "Interrupt \<notin> set [Line sample_tool_line]"
    by simp
  have h2: "snd (snd (main sample_env [Line sample_tool_line])) = None"
    by (simp add: sample_defs run_defs)
  have n: "json_loads sample_env (strip sample_text_line) = None"
    by (simp add: sample_env_def sample_text_line_def strip_def isspace_def newline_def
        sample_loads_def)
  have a: "json_loads sample_env (strip sample_array_line) = Some (JArr [JInt 1])"
    by (simp add: sample_defs strip_def isspace_def newline_def)
  have c0: "fst (snd (main sample_env [Line sample_tool_line]))
      = \<lparr>activity_count = 1, total_tokens = 16\<rparr>"
    by (simp add: sample_defs run_defs)
  have ev0: \<open>hooks_of (fst (main sample_env [Line sample_tool_line])) =
       [[JStr (ACTIVITY_LOGGER sample_env), JStr ''session_start'', JStr ''/work''],
        [JStr (ACTIVITY_LOGGER sample_env), JStr ''tool_call'', JStr ''search'',
         JStr ''{"q": "x"}'', JStr ''success'', JStr ''100'', JStr ''16''],
        [JStr (ACTIVITY_LOGGER sample_env), JStr ''session_end'', JStr ''1'', JStr ''16'',
         JStr ''250'']]\<close>
    by (simp add: sample_defs run_defs)
  have hn: "\<not> (\<exists>data. json_loads sample_env (strip sample_text_line)
              = Some (JObj data)
            \<and> (dict_get data ''type'' JNull = JStr ''tool_use''
               \<or> dict_get data ''type'' JNull = JStr ''error''))"
    by (simp add: n)
  have ha: "\<not> (\<exists>data. json_loads sample_env (strip sample_array_line) = Some (JObj data)
            \<and> (dict_get data ''type'' JNull = JStr ''tool_use''
               \<or> dict_get data ''type'' JNull = JStr ''error''))"
    by (simp add: a)
  have t: "json_loads sample_env (strip sample_other_line)
      = Some (JObj [(''type'', JStr ''text'')])"
    by (simp add: sample_env_def sample_other_line_def strip_def isspace_def newline_def
        sample_loads_def)
  have ht: "\<not> (\<exists>data. json_loads sample_env (strip sample_other_line) = Some (JObj data)
            \<and> (dict_get data ''type'' JNull = JStr ''tool_use''
               \<or> dict_get data ''type'' JNull = JStr ''error''))"
    by (simp add: t dict_get_def)
  note rt = unrecognised_line [OF h1 h2 ht, of "[]", unfolded c0]
  from rt have t1:
      "fst (snd (main sample_env ([Line sample_tool_line] @ [Line sample_other_line])))
        = \<lparr>activity_count = 1, total_tokens = 16\<rparr>"
      "snd (snd (main sample_env ([Line sample_tool_line] @ [Line sample_other_line])))
        = (if json_loads sample_env (strip sample_other_line) = None
             \<or> (\<exists>data. json_loads sample_env (strip sample_other_line) = Some (JObj data))
          then None else Some AttributeError)"
      "stdout_of (fst (main sample_env ([Line sample_tool_line] @ [Line sample_other_line])))
        = lines_of [Line sample_tool_line] @ [sample_other_line]"
      "hooks_of (fst (main sample_env ([Line sample_tool_line] @ [Line sample_other_line])))
        = hooks_of (fst (main sample_env [Line sample_tool_line]))"
    by blast+
  have t2:
      "fst (snd (main sample_env [Line sample_tool_line, Line sample_other_line]))
        = \<lparr>activity_count = 1, total_tokens = 16\<rparr>"
      "snd (snd (main sample_env [Line sample_tool_line, Line sample_other_line])) = None"
      "stdout_of (fst (main sample_env [Line sample_tool_line, Line sample_other_line]))
        = [sample_tool_line, sample_other_line]"
      "hooks_of (fst (main sample_env [Line sample_tool_line, Line sample_other_line]))
        = hooks_of (fst (main sample_env [Line sample_tool_line]))"
    using t1 t by simp_all
  note rn = unrecognised_line [OF h1 h2 hn, of "[]", unfolded c0]
  note ra = unrecognised_line [OF h1 h2 ha, of "[]", unfolded c0]
  from rn have n1:
      "fst (snd (main sample_env ([Line sample_tool_line] @ [Line sample_text_line])))
        = \<lparr>activity_count = 1, total_tokens = 16\<rparr>"
      "snd (snd (main sample_env
          ([Line sample_tool_line] @ [Line sample_text_line])))
        = (if json_loads sample_env (strip sample_text_line) = None
             \<or> (\<exists>data. json_loads sample_env (strip sample_text_line)
                   = Some (JObj data))
          then None else Some AttributeError)"
      "stdout_of (fst (main sample_env
          ([Line sample_tool_line] @ [Line sample_text_line])))
        = lines_of [Line sample_tool_line] @ [sample_text_line]"
      "hooks_of (fst (main sample_env
          ([Line sample_tool_line] @ [Line sample_text_line])))
        = hooks_of (fst (main sample_env [Line sample_tool_line]))"
    by blast+
  from ra have a1:
      "fst (snd (main sample_env ([Line sample_tool_line] @ [Line sample_array_line])))
        = \<lparr>activity_count = 1, total_tokens = 16\<rparr>"
      "snd (snd (main sample_env ([Line sample_tool_line] @ [Line sample_array_line])))
        = (if json_loads sample_env (strip sample_array_line) = None
             \<or> (\<exists>data. json_loads sample_env (strip sample_array_line) = Some (JObj data))
          then None else Some AttributeError)"
      "stdout_of (fst (main sample_env ([Line sample_tool_line] @ [Line sample_array_line])))
        = lines_of [Line sample_tool_line] @ [sample_array_line]"
      "hooks_of (fst (main sample_env ([Line sample_tool_line] @ [Line sample_array_line])))
        = hooks_of (fst (main sample_env [Line sample_tool_line]))"
    by blast+
  have n2:
      "fst (snd (main sample_env [Line sample_tool_line, Line sample_text_line]))
        = \<lparr>activity_count = 1, total_tokens = 16\<rparr>"
      "snd (snd (main sample_env [Line sample_tool_line, Line sample_text_line]))
        = None"
      "stdout_of (fst (main sample_env
          [Line sample_tool_line, Line sample_text_line]))
        = [sample_tool_line, sample_text_line]"
      "hooks_of (fst (main sample_env
          [Line sample_tool_line, Line sample_text_line]))
        = hooks_of (fst (main sample_env [Line sample_tool_line]))"
    using n1 n by simp_all
  have a2:
      "fst (snd (main sample_env [Line sample_tool_line, Line sample_array_line]))
        = \<lparr>activity_count = 1, total_tokens = 16\<rparr>"
      "snd (snd (main sample_env [Line sample_tool_line, Line sample_array_line]))
        = Some AttributeError"
      "stdout_of (fst (main sample_env [Line sample_tool_line, Line sample_array_line]))
        = [sample_tool_line, sample_array_line]"
      "hooks_of (fst (main sample_env [Line sample_tool_line, Line sample_array_line]))
        = hooks_of (fst (main sample_env [Line sample_tool_line]))"
    using a1 a by simp_all
  from h1 h2 n a t c0 ev0 n2 t2 a2 show ?thesis by blast
qed

end
